theory Spec2Isabelle
  imports Complex_Main
begin

section \<open>Python values\<close>

text \<open>
  A Python \<open>str\<close> is a sequence of Unicode code points, so it is modelled as a list of
  natural numbers; \<open>str_of\<close> embeds the ASCII literals of the source.
\<close>

type_synonym pystr = "nat list"

definition str_of :: "string \<Rightarrow> pystr" where
  "str_of s = map of_char s"

text \<open>The exceptions that the resolver and the gazetteer can raise.\<close>

datatype py_error = KeyError | ValueError | TypeError | AttributeError | OverflowError

text \<open>
  The values a field of an event record can hold: what a decoded JSON document contains
  (objects as field values are left out). A Python \<open>float\<close> is modelled as a rational:
  arithmetic is exact, and NaN and the infinities are not values of the model.
\<close>

datatype pyval =
    PNone
  | PBool bool
  | PInt int
  | PFloat rat
  | PStr pystr
  | PList "pyval list"

text \<open>
  The tables of the Python runtime that the code consults and that are not part of the
  repository: the numeric literal parsers behind \<open>float(str)\<close> and \<open>int(str)\<close>, the case
  mappings of \<open>str.upper\<close> and \<open>str.lower\<close>, the whitespace class of \<open>str.strip\<close>,
  the NFKD decomposition and the combining class of \<open>unicodedata\<close>, and the classes
  \<open>\w\<close> and \<open>\s\<close> of \<open>re\<close>. Every function below takes them as one parameter.
\<close>

record pyenv =
  parse_float :: "pystr \<Rightarrow> rat option"
  parse_int :: "pystr \<Rightarrow> int option"
  str_upper :: "pystr \<Rightarrow> pystr"
  str_lower :: "pystr \<Rightarrow> pystr"
  str_isspace :: "nat \<Rightarrow> bool"
  nfkd :: "pystr \<Rightarrow> pystr"
  combining :: "nat \<Rightarrow> bool"
  re_word :: "nat \<Rightarrow> bool"
  re_space :: "nat \<Rightarrow> bool"

text \<open>Truth value of an object, as \<open>if x:\<close> and \<open>not x\<close> test it.\<close>

fun truthy :: "pyval \<Rightarrow> bool" where
  "truthy PNone = False"
| "truthy (PBool b) = b"
| "truthy (PInt n) = (n \<noteq> 0)"
| "truthy (PFloat x) = (x \<noteq> 0)"
| "truthy (PStr s) = (s \<noteq> [])"
| "truthy (PList xs) = (xs \<noteq> [])"

text \<open>
  \<open>float(x)\<close>. An \<open>int\<close> converts unless it rounds to a magnitude of \<open>2^1024\<close> or more,
  where CPython raises \<open>OverflowError\<close>; a \<open>str\<close> is parsed and raises \<open>ValueError\<close>
  when it is no numeric literal; \<open>None\<close> and a list raise \<open>TypeError\<close>.
\<close>

definition float_int_limit :: int where
  "float_int_limit = 2 ^ 1024 - 2 ^ 970"

fun to_float :: "pyenv \<Rightarrow> pyval \<Rightarrow> py_error + rat" where
  "to_float E PNone = Inl TypeError"
| "to_float E (PBool b) = Inr (if b then 1 else 0)"
| "to_float E (PInt n) =
     (if float_int_limit \<le> \<bar>n\<bar> then Inl OverflowError else Inr (of_int n))"
| "to_float E (PFloat x) = Inr x"
| "to_float E (PStr s) =
     (case parse_float E s of None \<Rightarrow> Inl ValueError | Some x \<Rightarrow> Inr x)"
| "to_float E (PList xs) = Inl TypeError"

text \<open>\<open>len(x)\<close>, and the items that iterating over \<open>x\<close> yields.\<close>

fun py_len :: "pyval \<Rightarrow> py_error + nat" where
  "py_len (PStr s) = Inr (length s)"
| "py_len (PList xs) = Inr (length xs)"
| "py_len v = Inl TypeError"

fun py_iter :: "pyval \<Rightarrow> pyval list" where
  "py_iter (PStr s) = map (\<lambda>c. PStr [c]) s"
| "py_iter (PList xs) = xs"
| "py_iter v = []"

text \<open>The clause \<open>except (ValueError, TypeError)\<close>.\<close>

definition caught :: "py_error \<Rightarrow> bool" where
  "caught e = (e = ValueError \<or> e = TypeError)"

section \<open>The centroid of a bounding box\<close>

text \<open>The comprehension \<open>[float(x) for x in bbox]\<close>: the first failing conversion raises.\<close>

fun floats :: "pyenv \<Rightarrow> pyval list \<Rightarrow> py_error + rat list" where
  "floats E [] = Inr []"
| "floats E (x # xs) =
     (case to_float E x of
        Inl e \<Rightarrow> Inl e
      | Inr a \<Rightarrow> (case floats E xs of Inl e \<Rightarrow> Inl e | Inr as \<Rightarrow> Inr (a # as)))"

definition valid_point :: "rat \<Rightarrow> rat \<Rightarrow> bool" where
  "valid_point lat lon = (- 90 \<le> lat \<and> lat \<le> 90 \<and> - 180 \<le> lon \<and> lon \<le> 180)"

text \<open>
  \<open>bbox_centroid\<close>. The guard \<open>not bbox or len(bbox) != 4\<close> stands before the \<open>try\<close>,
  so a \<open>TypeError\<close> of \<open>len\<close> is not caught; inside the \<open>try\<close> only \<open>ValueError\<close> and
  \<open>TypeError\<close> are.
\<close>

fun centroid_of :: "rat list \<Rightarrow> (rat \<times> rat) option" where
  "centroid_of [min_lon, min_lat, max_lon, max_lat] =
     (let lat = (min_lat + max_lat) / 2;
          lon = (min_lon + max_lon) / 2
      in if valid_point lat lon then Some (lat, lon) else None)"
| "centroid_of vs = None"

definition bbox_centroid :: "pyenv \<Rightarrow> pyval \<Rightarrow> py_error + (rat \<times> rat) option" where
  "bbox_centroid E bbox =
     (if \<not> truthy bbox then Inr None
      else (case py_len bbox of
        Inl e \<Rightarrow> Inl e
      | Inr n \<Rightarrow>
          if n \<noteq> 4 then Inr None
          else (case floats E (py_iter bbox) of
            Inl e \<Rightarrow> if caught e then Inr None else Inl e
          | Inr vs \<Rightarrow> Inr (centroid_of vs))))"

section \<open>Text normalisation\<close>

text \<open>\<open>str.strip()\<close>: leading and trailing whitespace is removed.\<close>

definition py_strip :: "pyenv \<Rightarrow> pystr \<Rightarrow> pystr" where
  "py_strip E s = rev (dropWhile (str_isspace E) (rev (dropWhile (str_isspace E) s)))"

text \<open>
  \<open>re.sub(r'\s+', ' ', text)\<close>: every maximal run of whitespace becomes one space
  (code point 32). The flag says whether the previous character belonged to a run.
\<close>

fun squeeze :: "(nat \<Rightarrow> bool) \<Rightarrow> bool \<Rightarrow> pystr \<Rightarrow> pystr" where
  "squeeze sp inrun [] = []"
| "squeeze sp inrun (c # cs) =
     (if sp c then (if inrun then squeeze sp True cs else 32 # squeeze sp True cs)
      else c # squeeze sp False cs)"

text \<open>
  \<open>Gazetteer._normalize\<close> on a \<open>str\<close>, the type its signature announces: the empty
  text gives the empty key; otherwise decompose, drop the combining marks, lower-case,
  strip, delete every character outside \<open>[\w\s\-,]\<close> (45 is the hyphen, 44 the comma)
  and collapse whitespace.
\<close>

definition normalize_str :: "pyenv \<Rightarrow> pystr \<Rightarrow> pystr" where
  "normalize_str E text =
     (if text = [] then []
      else (let t1 = nfkd E text;
                t2 = filter (\<lambda>c. \<not> combining E c) t1;
                t3 = py_strip E (str_lower E t2);
                t4 = filter (\<lambda>c. re_word E c \<or> re_space E c \<or> c = 45 \<or> c = 44) t3
            in squeeze (re_space E) False t4))"

text \<open>
  \<open>Gazetteer._normalize\<close> on an arbitrary object: a falsy argument returns the empty
  key at the guard \<open>if not text\<close>; any other argument reaches
  \<open>unicodedata.normalize('NFKD', text)\<close>, which raises \<open>TypeError\<close> unless it is a \<open>str\<close>.
\<close>

definition normalize :: "pyenv \<Rightarrow> pyval \<Rightarrow> py_error + pystr" where
  "normalize E text =
     (if \<not> truthy text then Inr []
      else (case text of PStr s \<Rightarrow> Inr (normalize_str E s) | _ \<Rightarrow> Inl TypeError))"

section \<open>The gazetteer\<close>

text \<open>
  The entries are the dicts that the loaders build. A name is the cell of the CSV row as
  read: \<open>csv.DictReader\<close> fills a column missing from a short row with \<open>None\<close>.
\<close>

record country =
  c_lat :: rat
  c_lon :: rat
  c_name :: "pystr option"
  c_iso2 :: pystr
  c_iso3 :: pystr
  c_pop :: int

record admin1 =
  a_lat :: rat
  a_lon :: rat
  a_name :: "pystr option"
  a_country_iso2 :: pystr

record city =
  ct_lat :: rat
  ct_lon :: rat
  ct_name :: "pystr option"
  ct_admin1_name :: "pystr option"
  ct_country_iso2 :: pystr
  ct_pop :: int

record gazetteer =
  country_by_iso2 :: "pystr \<rightharpoonup> country"
  country_by_iso3 :: "pystr \<rightharpoonup> country"
  country_by_name :: "pystr \<rightharpoonup> country"
  admin1_by_key :: "pystr \<rightharpoonup> admin1"
  cities_by_key :: "pystr \<rightharpoonup> city"

definition empty_gazetteer :: gazetteer where
  "empty_gazetteer =
     \<lparr>country_by_iso2 = Map.empty, country_by_iso3 = Map.empty,
      country_by_name = Map.empty, admin1_by_key = Map.empty,
      cities_by_key = Map.empty\<rparr>"

subsection \<open>Reading rows\<close>

text \<open>
  A row of \<open>csv.DictReader\<close> maps a column name to its cell, a \<open>str\<close> or \<open>None\<close>. A
  file is the list of its rows, or \<open>None\<close> when \<open>os.path.exists\<close> is false.
\<close>

type_synonym row = "string \<rightharpoonup> pystr option"

definition bnd :: "'e + 'a \<Rightarrow> ('a \<Rightarrow> 'e + 'b) \<Rightarrow> 'e + 'b" where
  "bnd m f = (case m of Inl e \<Rightarrow> Inl e | Inr a \<Rightarrow> f a)"

definition row_get :: "row \<Rightarrow> string \<Rightarrow> py_error + pystr option" where
  "row_get r k = (case r k of None \<Rightarrow> Inl KeyError | Some c \<Rightarrow> Inr c)"

definition cell_upper :: "pyenv \<Rightarrow> pystr option \<Rightarrow> py_error + pystr" where
  "cell_upper E c = (case c of None \<Rightarrow> Inl AttributeError | Some s \<Rightarrow> Inr (str_upper E s))"

definition cell_val :: "pystr option \<Rightarrow> pyval" where
  "cell_val c = (case c of None \<Rightarrow> PNone | Some s \<Rightarrow> PStr s)"

definition cell_float :: "pyenv \<Rightarrow> pystr option \<Rightarrow> py_error + rat" where
  "cell_float E c = to_float E (cell_val c)"

text \<open>\<open>int(row.get(k, 0))\<close>: the default when the column is absent, else \<open>int\<close> of the cell.\<close>

definition cell_int :: "pyenv \<Rightarrow> pystr option \<Rightarrow> py_error + int" where
  "cell_int E c =
     (case c of
        None \<Rightarrow> Inl TypeError
      | Some s \<Rightarrow> (case parse_int E s of None \<Rightarrow> Inl ValueError | Some n \<Rightarrow> Inr n))"

definition row_int_default :: "pyenv \<Rightarrow> row \<Rightarrow> string \<Rightarrow> py_error + int" where
  "row_int_default E r k = (case r k of None \<Rightarrow> Inr 0 | Some c \<Rightarrow> cell_int E c)"

text \<open>\<open>self._normalize\<close> applied to a cell: \<open>None\<close> is falsy and gives the empty key.\<close>

definition normalize_cell :: "pyenv \<Rightarrow> pystr option \<Rightarrow> pystr" where
  "normalize_cell E c = (case c of None \<Rightarrow> [] | Some s \<Rightarrow> normalize_str E s)"

subsection \<open>Loading the three tables\<close>

definition country_of_row :: "pyenv \<Rightarrow> row \<Rightarrow> py_error + country" where
  "country_of_row E r =
     bnd (bnd (row_get r ''iso2'') (cell_upper E)) (\<lambda>iso2.
     bnd (bnd (row_get r ''iso3'') (cell_upper E)) (\<lambda>iso3.
     bnd (row_get r ''name'') (\<lambda>name.
     bnd (bnd (row_get r ''lat'') (cell_float E)) (\<lambda>lat.
     bnd (bnd (row_get r ''lon'') (cell_float E)) (\<lambda>lon.
     bnd (row_int_default E r ''population'') (\<lambda>pop.
     Inr \<lparr>c_lat = lat, c_lon = lon, c_name = name, c_iso2 = iso2, c_iso3 = iso3,
          c_pop = pop\<rparr>))))))"

definition add_country :: "pyenv \<Rightarrow> gazetteer \<Rightarrow> country \<Rightarrow> gazetteer" where
  "add_country E g e =
     g\<lparr>country_by_iso2 := (country_by_iso2 g)(c_iso2 e \<mapsto> e),
       country_by_iso3 := (country_by_iso3 g)(c_iso3 e \<mapsto> e),
       country_by_name := (country_by_name g)(normalize_cell E (c_name e) \<mapsto> e)\<rparr>"

fun load_country_rows :: "pyenv \<Rightarrow> gazetteer \<Rightarrow> row list \<Rightarrow> py_error + gazetteer" where
  "load_country_rows E g [] = Inr g"
| "load_country_rows E g (r # rs) =
     bnd (country_of_row E r) (\<lambda>e. load_country_rows E (add_country E g e) rs)"

definition load_countries :: "pyenv \<Rightarrow> row list option \<Rightarrow> gazetteer \<Rightarrow> py_error + gazetteer" where
  "load_countries E file g =
     (case file of None \<Rightarrow> Inr g | Some rows \<Rightarrow> load_country_rows E g rows)"

definition admin1_of_row :: "pyenv \<Rightarrow> row \<Rightarrow> py_error + admin1" where
  "admin1_of_row E r =
     bnd (bnd (row_get r ''country_iso2'') (cell_upper E)) (\<lambda>country_iso2.
     bnd (row_get r ''admin1_name'') (\<lambda>admin1_name.
     bnd (bnd (row_get r ''lat'') (cell_float E)) (\<lambda>lat.
     bnd (bnd (row_get r ''lon'') (cell_float E)) (\<lambda>lon.
     Inr \<lparr>a_lat = lat, a_lon = lon, a_name = admin1_name,
          a_country_iso2 = country_iso2\<rparr>))))"

text \<open>The keys are the f-strings of the source: the parts joined by a colon (58).\<close>

definition admin1_key :: "pystr \<Rightarrow> pystr \<Rightarrow> pystr" where
  "admin1_key country_iso2 norm_admin1 = country_iso2 @ [58] @ norm_admin1"

definition city_key :: "pystr \<Rightarrow> pystr \<Rightarrow> pystr \<Rightarrow> pystr" where
  "city_key country_iso2 norm_admin1 norm_city =
     country_iso2 @ [58] @ norm_admin1 @ [58] @ norm_city"

definition city_key_country :: "pystr \<Rightarrow> pystr \<Rightarrow> pystr" where
  "city_key_country country_iso2 norm_city = country_iso2 @ [58] @ norm_city"

definition add_admin1 :: "pyenv \<Rightarrow> gazetteer \<Rightarrow> admin1 \<Rightarrow> gazetteer" where
  "add_admin1 E g e =
     g\<lparr>admin1_by_key :=
         (admin1_by_key g)(admin1_key (a_country_iso2 e) (normalize_cell E (a_name e)) \<mapsto> e)\<rparr>"

fun load_admin1_rows :: "pyenv \<Rightarrow> gazetteer \<Rightarrow> row list \<Rightarrow> py_error + gazetteer" where
  "load_admin1_rows E g [] = Inr g"
| "load_admin1_rows E g (r # rs) =
     bnd (admin1_of_row E r) (\<lambda>e. load_admin1_rows E (add_admin1 E g e) rs)"

definition load_admin1 :: "pyenv \<Rightarrow> row list option \<Rightarrow> gazetteer \<Rightarrow> py_error + gazetteer" where
  "load_admin1 E file g =
     (case file of None \<Rightarrow> Inr g | Some rows \<Rightarrow> load_admin1_rows E g rows)"

definition city_of_row :: "pyenv \<Rightarrow> row \<Rightarrow> py_error + city" where
  "city_of_row E r =
     bnd (bnd (row_get r ''country_iso2'') (cell_upper E)) (\<lambda>country_iso2.
     bnd (row_get r ''admin1_name'') (\<lambda>admin1_name.
     bnd (row_get r ''city'') (\<lambda>city.
     bnd (bnd (row_get r ''lat'') (cell_float E)) (\<lambda>lat.
     bnd (bnd (row_get r ''lon'') (cell_float E)) (\<lambda>lon.
     bnd (row_int_default E r ''pop'') (\<lambda>pop.
     Inr \<lparr>ct_lat = lat, ct_lon = lon, ct_name = city, ct_admin1_name = admin1_name,
          ct_country_iso2 = country_iso2, ct_pop = pop\<rparr>))))))"

definition entry_key :: "pyenv \<Rightarrow> city \<Rightarrow> pystr" where
  "entry_key E e =
     city_key (ct_country_iso2 e) (normalize_cell E (ct_admin1_name e))
       (normalize_cell E (ct_name e))"

definition entry_key_country :: "pyenv \<Rightarrow> city \<Rightarrow> pystr" where
  "entry_key_country E e =
     city_key_country (ct_country_iso2 e) (normalize_cell E (ct_name e))"

text \<open>
  One row of the city table: the entry is stored under the precise key without a test,
  and under the admin-agnostic key when that key is free or holds a smaller population.
  Both keys live in the one dict \<open>cities_by_key\<close>.
\<close>

definition store_city :: "pyenv \<Rightarrow> (pystr \<rightharpoonup> city) \<Rightarrow> city \<Rightarrow> (pystr \<rightharpoonup> city)" where
  "store_city E m e =
     (let m1 = m(entry_key E e \<mapsto> e);
          key_country = entry_key_country E e
      in (case m1 key_country of
            None \<Rightarrow> m1(key_country \<mapsto> e)
          | Some old \<Rightarrow> if ct_pop old < ct_pop e then m1(key_country \<mapsto> e) else m1))"

definition add_city :: "pyenv \<Rightarrow> gazetteer \<Rightarrow> city \<Rightarrow> gazetteer" where
  "add_city E g e = g\<lparr>cities_by_key := store_city E (cities_by_key g) e\<rparr>"

fun load_city_rows :: "pyenv \<Rightarrow> gazetteer \<Rightarrow> row list \<Rightarrow> py_error + gazetteer" where
  "load_city_rows E g [] = Inr g"
| "load_city_rows E g (r # rs) =
     bnd (city_of_row E r) (\<lambda>e. load_city_rows E (add_city E g e) rs)"

definition load_cities :: "pyenv \<Rightarrow> row list option \<Rightarrow> gazetteer \<Rightarrow> py_error + gazetteer" where
  "load_cities E file g =
     (case file of None \<Rightarrow> Inr g | Some rows \<Rightarrow> load_city_rows E g rows)"

subsection \<open>Aliases and construction\<close>

definition aliases :: "(pystr \<times> pystr) list" where
  "aliases =
     [(str_of ''usa'', str_of ''US''),
      (str_of ''u.s.'', str_of ''US''),
      (str_of ''united states of america'', str_of ''US''),
      (str_of ''america'', str_of ''US''),
      (str_of ''uk'', str_of ''GB''),
      (str_of ''united kingdom'', str_of ''GB''),
      (str_of ''britain'', str_of ''GB''),
      (str_of ''england'', str_of ''GB''),
      (str_of ''drc'', str_of ''CD''),
      (str_of ''democratic republic of the congo'', str_of ''CD''),
      (str_of ''uae'', str_of ''AE''),
      (str_of ''emirates'', str_of ''AE'')]"

definition add_alias :: "pyenv \<Rightarrow> gazetteer \<Rightarrow> pystr \<times> pystr \<Rightarrow> gazetteer" where
  "add_alias E g p =
     (let norm_alias = normalize_str E (fst p)
      in (case country_by_iso2 g (snd p) of
            None \<Rightarrow> g
          | Some e \<Rightarrow>
              if country_by_name g norm_alias = None
              then g\<lparr>country_by_name := (country_by_name g)(norm_alias \<mapsto> e)\<rparr>
              else g))"

definition build_aliases :: "pyenv \<Rightarrow> gazetteer \<Rightarrow> gazetteer" where
  "build_aliases E g = foldl (add_alias E) g aliases"

text \<open>
  \<open>Gazetteer.__init__\<close>, given the contents of the three files. An exception of a loader
  leaves the constructor, so no gazetteer is obtained.
\<close>

definition gazetteer_init ::
  "pyenv \<Rightarrow> row list option \<Rightarrow> row list option \<Rightarrow> row list option \<Rightarrow> py_error + gazetteer" where
  "gazetteer_init E countries_file admin1_file cities_file =
     bnd (load_countries E countries_file empty_gazetteer) (\<lambda>g1.
     bnd (load_admin1 E admin1_file g1) (\<lambda>g2.
     bnd (load_cities E cities_file g2) (\<lambda>g3.
     Inr (build_aliases E g3))))"

subsection \<open>Finders\<close>

definition find_country :: "pyenv \<Rightarrow> gazetteer \<Rightarrow> pystr \<Rightarrow> country option" where
  "find_country E g name_or_code =
     (if name_or_code = [] then None
      else (let code_upper = py_strip E (str_upper E name_or_code)
            in if length code_upper = 2 \<and> country_by_iso2 g code_upper \<noteq> None
               then country_by_iso2 g code_upper
               else if length code_upper = 3 \<and> country_by_iso3 g code_upper \<noteq> None
               then country_by_iso3 g code_upper
               else country_by_name g (normalize_str E name_or_code)))"

definition find_admin1 :: "pyenv \<Rightarrow> gazetteer \<Rightarrow> pystr \<Rightarrow> pystr \<Rightarrow> admin1 option" where
  "find_admin1 E g country_code admin1_name =
     (if country_code = [] \<or> admin1_name = [] then None
      else admin1_by_key g
             (admin1_key (py_strip E (str_upper E country_code)) (normalize_str E admin1_name)))"

text \<open>
  \<open>find_city\<close>: the admin name is an \<open>Optional[str]\<close>; \<open>None\<close> and the empty text are
  both falsy, and then only the admin-agnostic key is consulted.
\<close>

definition find_city :: "pyenv \<Rightarrow> gazetteer \<Rightarrow> pystr \<Rightarrow> pystr option \<Rightarrow> pystr \<Rightarrow> city option" where
  "find_city E g country_code admin1_name city_name =
     (if country_code = [] \<or> city_name = [] then None
      else (let country_code_upper = py_strip E (str_upper E country_code);
                norm_city = normalize_str E city_name;
                key_country = city_key_country country_code_upper norm_city
            in (case admin1_name of
                  None \<Rightarrow> cities_by_key g key_country
                | Some a \<Rightarrow>
                    if a = [] then cities_by_key g key_country
                    else (let key = city_key country_code_upper (normalize_str E a) norm_city
                          in if cities_by_key g key \<noteq> None then cities_by_key g key
                             else cities_by_key g key_country))))"

section \<open>Resolving the location of an event\<close>

text \<open>An event record is a dict from field names to values.\<close>

type_synonym record_dict = "string \<rightharpoonup> pyval"

text \<open>\<open>d.get(k)\<close>: \<open>None\<close> when the key is absent.\<close>

definition dict_get :: "record_dict \<Rightarrow> string \<Rightarrow> pyval" where
  "dict_get d k = (case d k of None \<Rightarrow> PNone | Some v \<Rightarrow> v)"

text \<open>
  \<open>d.get(k, '').strip()\<close>: the default covers an absent key only; a value that is not a
  \<open>str\<close> has no method \<open>strip\<close>, and the call raises \<open>AttributeError\<close>.
\<close>

definition get_stripped :: "pyenv \<Rightarrow> record_dict \<Rightarrow> string \<Rightarrow> py_error + pystr" where
  "get_stripped E d k =
     (case d k of
        None \<Rightarrow> Inr (py_strip E [])
      | Some (PStr s) \<Rightarrow> Inr (py_strip E s)
      | Some v \<Rightarrow> Inl AttributeError)"

text \<open>The copy of the record with the three result fields initialised.\<close>

definition init_result :: "record_dict \<Rightarrow> record_dict" where
  "init_result rec =
     rec(''loc_method'' \<mapsto> PNone, ''loc_confidence'' \<mapsto> PFloat 0, ''loc_notes'' \<mapsto> PStr [])"

definition located ::
  "record_dict \<Rightarrow> rat \<Rightarrow> rat \<Rightarrow> string \<Rightarrow> rat \<Rightarrow> pystr \<Rightarrow> record_dict" where
  "located result lat lon method confidence notes =
     result(''lat'' \<mapsto> PFloat lat, ''lon'' \<mapsto> PFloat lon,
            ''loc_method'' \<mapsto> PStr (str_of method),
            ''loc_confidence'' \<mapsto> PFloat confidence,
            ''loc_notes'' \<mapsto> PStr notes)"

text \<open>
  Tier 1, coordinates in the record. The result is \<open>Some\<close> of the returned record when the
  tier returns, \<open>None\<close> when the chain goes on, and an error when a conversion raises
  something that the \<open>except\<close> clause does not name.
\<close>

definition provided_point :: "pyenv \<Rightarrow> record_dict \<Rightarrow> py_error + record_dict option" where
  "provided_point E result =
     (let lat = dict_get result ''lat'';
          lon = dict_get result ''lon''
      in if lat \<noteq> PNone \<and> lon \<noteq> PNone
         then (case to_float E lat of
                 Inl e \<Rightarrow> if caught e then Inr None else Inl e
               | Inr la \<Rightarrow>
                   (case to_float E lon of
                      Inl e \<Rightarrow> if caught e then Inr None else Inl e
                    | Inr lo \<Rightarrow>
                        if valid_point la lo
                        then Inr (Some (located result la lo ''provided_point'' 1
                                          (str_of ''Coordinates provided in source data'')))
                        else Inr None))
         else Inr None)"

text \<open>Tier 2, the centroid of the bounding box. The call stands outside any \<open>try\<close>.\<close>

definition bbox_tier :: "pyenv \<Rightarrow> record_dict \<Rightarrow> py_error + record_dict option" where
  "bbox_tier E result =
     (let bbox = dict_get result ''bbox''
      in if truthy bbox
         then (case bbox_centroid E bbox of
                 Inl e \<Rightarrow> Inl e
               | Inr None \<Rightarrow> Inr None
               | Inr (Some c) \<Rightarrow>
                   Inr (Some (located result (fst c) (snd c) ''bbox_centroid'' (4 / 5)
                                (str_of ''Centroid of bounding box''))))
         else Inr None)"

text \<open>The five text fields, read in the order of the source.\<close>

record text_fields =
  country_code :: pystr
  country_name :: pystr
  admin1_name :: pystr
  city_name :: pystr
  place_name :: pystr

definition read_text_fields :: "pyenv \<Rightarrow> record_dict \<Rightarrow> py_error + text_fields" where
  "read_text_fields E result =
     bnd (get_stripped E result ''country_code'') (\<lambda>cc.
     bnd (get_stripped E result ''country'') (\<lambda>cn.
     bnd (get_stripped E result ''admin1'') (\<lambda>a1.
     bnd (get_stripped E result ''city'') (\<lambda>ci.
     bnd (get_stripped E result ''place_name'') (\<lambda>pn.
     Inr \<lparr>country_code = str_upper E cc, country_name = cn, admin1_name = a1,
          city_name = ci, place_name = pn\<rparr>)))))"

text \<open>
  The country of the record: the code is tried first, the name only when the code gave
  nothing. The value is computed once and used by every later tier.
\<close>

definition country_lookup :: "pyenv \<Rightarrow> gazetteer \<Rightarrow> pystr \<Rightarrow> pystr \<Rightarrow> country option" where
  "country_lookup E gaz code name =
     (let country_data = (if code \<noteq> [] then find_country E gaz code else None)
      in if country_data = None \<and> name \<noteq> [] then find_country E gaz name
         else country_data)"

text \<open>How an f-string prints a name: the text itself, or \<open>None\<close>.\<close>

definition fmt :: "pystr option \<Rightarrow> pystr" where
  "fmt n = (case n of None \<Rightarrow> str_of ''None'' | Some s \<Rightarrow> s)"

text \<open>\<open>s.split(',')\<close>, for the separator given as a code point.\<close>

fun split_on :: "nat \<Rightarrow> pystr \<Rightarrow> pystr list" where
  "split_on sep [] = [[]]"
| "split_on sep (c # cs) =
     (if c = sep then [] # split_on sep cs
      else (case split_on sep cs of
              [] \<Rightarrow> [[c]]
            | p # ps \<Rightarrow> (c # p) # ps))"

text \<open>Tier 3, the structured city, with the confidence composed from its bonuses.\<close>

definition city_confidence :: "pystr \<Rightarrow> city \<Rightarrow> rat" where
  "city_confidence admin1 city_data =
     min (3 / 4 + (if admin1 \<noteq> [] then 1 / 20 else 0)
                + (if 1000000 < ct_pop city_data then 1 / 20 else 0)) 1"

definition city_tier ::
  "pyenv \<Rightarrow> gazetteer \<Rightarrow> record_dict \<Rightarrow> text_fields \<Rightarrow> country option \<Rightarrow> record_dict option" where
  "city_tier E gaz result tf country_data =
     (case country_data of
        None \<Rightarrow> None
      | Some cd \<Rightarrow>
          if city_name tf \<noteq> []
          then (case find_city E gaz (c_iso2 cd) (Some (admin1_name tf)) (city_name tf) of
                  None \<Rightarrow> None
                | Some city_data \<Rightarrow>
                    Some (located result (ct_lat city_data) (ct_lon city_data) ''city_geocode''
                            (city_confidence (admin1_name tf) city_data)
                            (str_of ''City: '' @ fmt (ct_name city_data) @ str_of '', ''
                               @ fmt (c_name cd))))
          else None)"

text \<open>Tier 4, a city parsed from the place name \<open>city, admin\<close>.\<close>

definition place_tier ::
  "pyenv \<Rightarrow> gazetteer \<Rightarrow> record_dict \<Rightarrow> text_fields \<Rightarrow> country option \<Rightarrow> record_dict option" where
  "place_tier E gaz result tf country_data =
     (case country_data of
        None \<Rightarrow> None
      | Some cd \<Rightarrow>
          if place_name tf \<noteq> [] \<and> 44 \<in> set (place_name tf)
          then (case map (py_strip E) (split_on 44 (place_name tf)) of
                  possible_city # possible_admin1 # rest \<Rightarrow>
                    (case find_city E gaz (c_iso2 cd) (Some possible_admin1) possible_city of
                       None \<Rightarrow> None
                     | Some city_data \<Rightarrow>
                         Some (located result (ct_lat city_data) (ct_lon city_data)
                                 ''city_geocode'' (18 / 25)
                                 (str_of ''Parsed from place name: '' @ fmt (ct_name city_data))))
                | parts \<Rightarrow> None)
          else None)"

text \<open>Tier 5, the centroid of the admin region.\<close>

definition admin1_tier ::
  "pyenv \<Rightarrow> gazetteer \<Rightarrow> record_dict \<Rightarrow> text_fields \<Rightarrow> country option \<Rightarrow> record_dict option" where
  "admin1_tier E gaz result tf country_data =
     (case country_data of
        None \<Rightarrow> None
      | Some cd \<Rightarrow>
          if admin1_name tf \<noteq> []
          then (case find_admin1 E gaz (c_iso2 cd) (admin1_name tf) of
                  None \<Rightarrow> None
                | Some admin1_data \<Rightarrow>
                    Some (located result (a_lat admin1_data) (a_lon admin1_data)
                            ''admin1_centroid'' (7 / 10)
                            (str_of ''Admin1: '' @ fmt (a_name admin1_data) @ str_of '', ''
                               @ fmt (c_name cd))))
          else None)"

text \<open>Tier 6, the centroid of the country, and tier 7, the unresolved record.\<close>

definition country_tier :: "record_dict \<Rightarrow> country option \<Rightarrow> record_dict option" where
  "country_tier result country_data =
     (case country_data of
        None \<Rightarrow> None
      | Some cd \<Rightarrow>
          Some (located result (c_lat cd) (c_lon cd) ''country_centroid'' (3 / 5)
                  (str_of ''Country: '' @ fmt (c_name cd))))"

definition unresolved :: "record_dict \<Rightarrow> record_dict" where
  "unresolved result = result(''loc_notes'' \<mapsto> PStr (str_of ''Could not resolve location''))"

text \<open>Tiers 3 to 7: the first tier that returns decides; none of them can raise.\<close>

definition gazetteer_tiers ::
  "pyenv \<Rightarrow> gazetteer \<Rightarrow> record_dict \<Rightarrow> text_fields \<Rightarrow> record_dict" where
  "gazetteer_tiers E gaz result tf =
     (let country_data = country_lookup E gaz (country_code tf) (country_name tf)
      in (case city_tier E gaz result tf country_data of
            Some r \<Rightarrow> r
          | None \<Rightarrow>
         (case place_tier E gaz result tf country_data of
            Some r \<Rightarrow> r
          | None \<Rightarrow>
         (case admin1_tier E gaz result tf country_data of
            Some r \<Rightarrow> r
          | None \<Rightarrow>
         (case country_tier result country_data of
            Some r \<Rightarrow> r
          | None \<Rightarrow> unresolved result)))))"

text \<open>\<open>resolve_location\<close>: the record is copied first, and only the copy is written.\<close>

definition resolve_location :: "pyenv \<Rightarrow> record_dict \<Rightarrow> gazetteer \<Rightarrow> py_error + record_dict" where
  "resolve_location E rec gaz =
     (let result = init_result rec
      in (case provided_point E result of
            Inl e \<Rightarrow> Inl e
          | Inr (Some r) \<Rightarrow> Inr r
          | Inr None \<Rightarrow>
         (case bbox_tier E result of
            Inl e \<Rightarrow> Inl e
          | Inr (Some r) \<Rightarrow> Inr r
          | Inr None \<Rightarrow>
         (case read_text_fields E result of
            Inl e \<Rightarrow> Inl e
          | Inr tf \<Rightarrow> Inr (gazetteer_tiers E gaz result tf)))))"

text \<open>
  The same call on a store of objects: a record is a reference into the store,
  \<open>rec.copy()\<close> allocates a new object, and every assignment of the function writes
  that object. An exception can only arise before the first tier has written, so the
  copy then still holds the initial result.
\<close>

type_synonym store = "record_dict list"

definition resolve_location_at ::
  "pyenv \<Rightarrow> store \<Rightarrow> nat \<Rightarrow> gazetteer \<Rightarrow> store \<times> (py_error + nat)" where
  "resolve_location_at E h rec gaz =
     (let result = length h;
          h1 = h @ [init_result (h ! rec)]
      in (case resolve_location E (h ! rec) gaz of
            Inl e \<Rightarrow> (h1, Inl e)
          | Inr r \<Rightarrow> (h1[result := r], Inr result)))"

section \<open>The runtime tables on ASCII text\<close>

text \<open>
  A concrete environment for evaluating the functions on ASCII inputs: on code points
  below 128 the case mappings, the whitespace class and \<open>\w\<close> are as defined here, NFKD
  changes nothing and no character is a combining mark. The two parsers accept the plain
  decimal literals (an optional sign, digits, for \<open>float\<close> an optional fraction) between
  optional whitespace; Python accepts further forms, such as exponents.
\<close>

definition ascii_upper :: "nat \<Rightarrow> nat" where
  "ascii_upper c = (if 97 \<le> c \<and> c \<le> 122 then c - 32 else c)"

definition ascii_lower :: "nat \<Rightarrow> nat" where
  "ascii_lower c = (if 65 \<le> c \<and> c \<le> 90 then c + 32 else c)"

definition ascii_space :: "nat \<Rightarrow> bool" where
  "ascii_space c = ((9 \<le> c \<and> c \<le> 13) \<or> (28 \<le> c \<and> c \<le> 32))"

definition ascii_digit :: "nat \<Rightarrow> bool" where
  "ascii_digit c = (48 \<le> c \<and> c \<le> 57)"

definition ascii_word :: "nat \<Rightarrow> bool" where
  "ascii_word c =
     (ascii_digit c \<or> (65 \<le> c \<and> c \<le> 90) \<or> (97 \<le> c \<and> c \<le> 122) \<or> c = 95)"

definition digits_value :: "pystr \<Rightarrow> int" where
  "digits_value ds = foldl (\<lambda>a c. 10 * a + (int c - 48)) 0 ds"

definition ascii_trim :: "pystr \<Rightarrow> pystr" where
  "ascii_trim s = rev (dropWhile ascii_space (rev (dropWhile ascii_space s)))"

fun signed :: "pystr \<Rightarrow> bool \<times> pystr" where
  "signed [] = (False, [])"
| "signed (c # cs) =
     (if c = 45 then (True, cs) else if c = 43 then (False, cs) else (False, c # cs))"

definition dec_int :: "pystr \<Rightarrow> int option" where
  "dec_int s =
     (let p = signed (ascii_trim s); body = snd p
      in if body \<noteq> [] \<and> list_all ascii_digit body
         then Some (if fst p then - digits_value body else digits_value body)
         else None)"

definition dec_float :: "pystr \<Rightarrow> rat option" where
  "dec_float s =
     (let p = signed (ascii_trim s); body = snd p;
          ip = takeWhile (\<lambda>c. c \<noteq> 46) body;
          fp = drop 1 (dropWhile (\<lambda>c. c \<noteq> 46) body);
          v = of_int (digits_value ip) + of_int (digits_value fp) / 10 ^ length fp
      in if (ip \<noteq> [] \<or> fp \<noteq> []) \<and> list_all ascii_digit ip \<and> list_all ascii_digit fp
         then Some (if fst p then - v else v)
         else None)"

definition ascii_env :: pyenv where
  "ascii_env =
     \<lparr>parse_float = dec_float, parse_int = dec_int,
      str_upper = map ascii_upper, str_lower = map ascii_lower,
      str_isspace = ascii_space,
      nfkd = (\<lambda>s. s), combining = (\<lambda>c. False),
      re_word = ascii_word, re_space = ascii_space\<rparr>"

section \<open>Notions of the specification\<close>

text \<open>
  The invariant of a resolved record: the confidence is a float in the closed unit
  interval, and it is zero exactly when the method is \<open>None\<close>.
\<close>

definition confidence_invariant :: "record_dict \<Rightarrow> bool" where
  "confidence_invariant r =
     (case r ''loc_confidence'' of
        Some (PFloat c) \<Rightarrow> 0 \<le> c \<and> c \<le> 1 \<and> ((c = 0) = (r ''loc_method'' = Some PNone))
      | _ \<Rightarrow> False)"

text \<open>A numeric value: an \<open>int\<close> or a \<open>float\<close>, read as a rational.\<close>

definition numeric_value :: "pyval \<Rightarrow> rat option" where
  "numeric_value v = (case v of PInt n \<Rightarrow> Some (of_int n) | PFloat x \<Rightarrow> Some x | _ \<Rightarrow> None)"

text \<open>The five fields that the resolver writes.\<close>

definition result_fields :: "string set" where
  "result_fields = {''lat'', ''lon'', ''loc_method'', ''loc_confidence'', ''loc_notes''}"

section \<open>Sample inputs\<close>

text \<open>
  Event records used to run the functions: coordinates together with a valid box and a
  country that is no text; a box alone; an unknown country name with one further field.
\<close>

definition scenario_a :: record_dict where
  "scenario_a =
     [''lat'' \<mapsto> PFloat (681 / 20), ''lon'' \<mapsto> PFloat (- (2956 / 25)),
      ''bbox'' \<mapsto> PList [PInt (- 10), PInt 40, PInt (- 8), PInt 42],
      ''country'' \<mapsto> PInt 5]"

definition scenario_b :: record_dict where
  "scenario_b = [''bbox'' \<mapsto> PList [PInt (- 10), PInt 40, PInt (- 8), PInt 42]]"

definition scenario_d :: record_dict where
  "scenario_d = [''id'' \<mapsto> PInt 7, ''country'' \<mapsto> PStr (str_of ''Ruritania'')]"

section \<open>What a call of the resolver returns\<close>

lemma provided_point_SomeD:
  "provided_point E result = Inr (Some r) \<Longrightarrow>
     \<exists>la lo n. r = located result la lo ''provided_point'' 1 n"
  by (auto simp: provided_point_def Let_def split: if_splits sum.splits)

lemma bbox_tier_SomeD:
  "bbox_tier E result = Inr (Some r) \<Longrightarrow>
     \<exists>la lo n. r = located result la lo ''bbox_centroid'' (4 / 5) n"
  by (auto simp: bbox_tier_def Let_def split: if_splits sum.splits option.splits)

lemma city_confidence_bounds: "0 < city_confidence a c \<and> city_confidence a c \<le> 1"
  by (simp add: city_confidence_def)

lemma city_tier_SomeD:
  "city_tier E gaz result tf cd = Some r \<Longrightarrow>
     \<exists>la lo m c n. r = located result la lo m c n \<and> 0 < c \<and> c \<le> 1"
  using city_confidence_bounds
  by (auto simp: city_tier_def split: option.splits if_splits) blast

lemma place_tier_SomeD:
  "place_tier E gaz result tf cd = Some r \<Longrightarrow>
     \<exists>la lo m c n. r = located result la lo m c n \<and> 0 < c \<and> c \<le> 1"
  by (auto simp: place_tier_def split: option.splits if_splits list.splits)
     (rule exI, rule exI, rule exI, rule exI [of _ "18 / 25"], auto)

lemma admin1_tier_SomeD:
  "admin1_tier E gaz result tf cd = Some r \<Longrightarrow>
     \<exists>la lo m c n. r = located result la lo m c n \<and> 0 < c \<and> c \<le> 1"
  by (auto simp: admin1_tier_def split: option.splits if_splits)
     (rule exI, rule exI, rule exI, rule exI [of _ "7 / 10"], auto)

lemma country_tier_SomeD:
  "country_tier result cd = Some r \<Longrightarrow>
     \<exists>la lo m c n. r = located result la lo m c n \<and> 0 < c \<and> c \<le> 1"
  by (auto simp: country_tier_def split: option.splits if_splits)
     (rule exI, rule exI, rule exI, rule exI [of _ "3 / 5"], auto)

lemma gazetteer_tiers_cases:
  "gazetteer_tiers E gaz result tf = unresolved result \<or>
     (\<exists>la lo m c n. gazetteer_tiers E gaz result tf = located result la lo m c n \<and> 0 < c \<and> c \<le> 1)"
proof -
  let ?cd = "country_lookup E gaz (country_code tf) (country_name tf)"
  let ?g = "gazetteer_tiers E gaz result tf"
  show ?thesis
  proof (cases "city_tier E gaz result tf ?cd")
    case (Some r)
    then have "?g = r" by (simp add: gazetteer_tiers_def)
    with city_tier_SomeD [OF Some] show ?thesis by metis
  next
    case c: None
    show ?thesis
    proof (cases "place_tier E gaz result tf ?cd")
      case (Some r)
      with c have "?g = r" by (simp add: gazetteer_tiers_def)
      with place_tier_SomeD [OF Some] show ?thesis by metis
    next
      case p: None
      show ?thesis
      proof (cases "admin1_tier E gaz result tf ?cd")
        case (Some r)
        with c p have "?g = r" by (simp add: gazetteer_tiers_def)
        with admin1_tier_SomeD [OF Some] show ?thesis by metis
      next
        case a: None
        show ?thesis
        proof (cases "country_tier result ?cd")
          case (Some r)
          with c p a have "?g = r" by (simp add: gazetteer_tiers_def)
          with country_tier_SomeD [OF Some] show ?thesis by metis
        next
          case None
          with c p a show ?thesis by (simp add: gazetteer_tiers_def)
        qed
      qed
    qed
  qed
qed

lemma resolve_location_cases:
  assumes "resolve_location E rec gaz = Inr r"
  shows "r = unresolved (init_result rec) \<or>
     (\<exists>la lo m c n. r = located (init_result rec) la lo m c n \<and> 0 < c \<and> c \<le> 1)"
proof (cases "provided_point E (init_result rec)")
  case (Inl e)
  with assms show ?thesis by (simp add: resolve_location_def)
next
  case (Inr p)
  show ?thesis
  proof (cases p)
    case (Some r1)
    with Inr assms have "r = r1" by (simp add: resolve_location_def)
    with provided_point_SomeD Inr Some show ?thesis by fastforce
  next
    case None
    note p_none = None
    show ?thesis
    proof (cases "bbox_tier E (init_result rec)")
      case (Inl e)
      with assms Inr p_none show ?thesis by (simp add: resolve_location_def)
    next
      case b: (Inr q)
      show ?thesis
      proof (cases q)
        case (Some r2)
        with Inr p_none b assms have "r = r2" by (simp add: resolve_location_def)
        with bbox_tier_SomeD b Some show ?thesis by fastforce
      next
        case None
        with Inr p_none b assms obtain tf where
          "r = gazetteer_tiers E gaz (init_result rec) tf"
          by (auto simp: resolve_location_def Let_def split: sum.splits)
        with gazetteer_tiers_cases [of E gaz "init_result rec" tf] show ?thesis by auto
      qed
    qed
  qed
qed

lemma located_fields:
  "located r la lo m c n ''lat'' = Some (PFloat la)"
  "located r la lo m c n ''lon'' = Some (PFloat lo)"
  "located r la lo m c n ''loc_method'' = Some (PStr (str_of m))"
  "located r la lo m c n ''loc_confidence'' = Some (PFloat c)"
  "located r la lo m c n ''loc_notes'' = Some (PStr n)"
  by (simp_all add: located_def)

lemma located_frame: "k \<notin> result_fields \<Longrightarrow> located r la lo m c n k = r k"
  by (simp add: located_def result_fields_def)

lemma init_result_frame: "k \<notin> result_fields \<Longrightarrow> init_result r k = r k"
  by (simp add: init_result_def result_fields_def)

lemma unresolved_frame: "k \<notin> result_fields \<Longrightarrow> unresolved r k = r k"
  by (simp add: unresolved_def result_fields_def)

lemma unresolved_fields:
  "unresolved (init_result r) ''loc_method'' = Some PNone"
  "unresolved (init_result r) ''loc_confidence'' = Some (PFloat 0)"
  by (simp_all add: unresolved_def init_result_def)

section \<open>The confidence of a resolved record\<close>

text \<open>
  Claim C1. Whatever the input record and the gazetteer, a record that
  \<open>resolve_location\<close> returns carries a confidence between 0 and 1, and that
  confidence is 0 exactly when the method is \<open>None\<close>.
\<close>

theorem confidence_in_unit_interval:
  assumes "resolve_location E rec gaz = Inr r"
  shows "confidence_invariant r"
proof -
  from resolve_location_cases [OF assms] show ?thesis
  proof
    assume "r = unresolved (init_result rec)"
    then show ?thesis by (simp add: confidence_invariant_def unresolved_fields)
  next
    assume "\<exists>la lo m c n. r = located (init_result rec) la lo m c n \<and> 0 < c \<and> c \<le> 1"
    then show ?thesis by (auto simp: confidence_invariant_def located_fields)
  qed
qed

lemma scenario_b_resolved:
  "resolve_location ascii_env scenario_b empty_gazetteer =
     Inr (located (init_result scenario_b) 41 (- 9) ''bbox_centroid'' (4 / 5)
            (str_of ''Centroid of bounding box''))"
  by (simp add: resolve_location_def provided_point_def dict_get_def init_result_def
      scenario_b_def bbox_tier_def bbox_centroid_def float_int_limit_def valid_point_def)

text \<open>The box of scenario B resolves at tier 2, with confidence 0.8.\<close>

theorem confidence_in_unit_interval_witness:
  "resolve_location ascii_env scenario_b empty_gazetteer =
     Inr (located (init_result scenario_b) 41 (- 9) ''bbox_centroid'' (4 / 5)
            (str_of ''Centroid of bounding box''))
   \<and> confidence_invariant
       (located (init_result scenario_b) 41 (- 9) ''bbox_centroid'' (4 / 5)
          (str_of ''Centroid of bounding box''))"
  using confidence_in_unit_interval [OF scenario_b_resolved] scenario_b_resolved by simp

section \<open>Coordinates in the record win\<close>

lemma float_int_limit_large: "180 < float_int_limit"
  by (simp add: float_int_limit_def)

lemma to_float_numeric:
  assumes "numeric_value v = Some x" "\<bar>x\<bar> \<le> 180"
  shows "to_float E v = Inr x"
proof (cases v)
  case (PInt n)
  with assms have "x = of_int n" by (simp add: numeric_value_def)
  with assms(2) have "\<bar>n\<bar> \<le> 180" by (metis of_int_abs of_int_le_iff of_int_numeral)
  with float_int_limit_large have "\<not> float_int_limit \<le> \<bar>n\<bar>" by linarith
  with PInt \<open>x = of_int n\<close> show ?thesis by simp
qed (use assms in \<open>simp_all add: numeric_value_def\<close>)

text \<open>
  Claim C6. When the record carries numeric \<open>lat\<close> and \<open>lon\<close> in the valid ranges, the
  call returns at tier 1: method \<open>provided_point\<close>, confidence 1, and the two
  coordinates with their values unchanged (as floats), whatever else the record holds
  and whatever the gazetteer.
\<close>

theorem provided_point_wins:
  assumes "rec ''lat'' = Some vlat" and "rec ''lon'' = Some vlon"
    and "numeric_value vlat = Some la" and "numeric_value vlon = Some lo"
    and "valid_point la lo"
  shows "\<exists>r. resolve_location E rec gaz = Inr r
     \<and> r = located (init_result rec) la lo ''provided_point'' 1
             (str_of ''Coordinates provided in source data'')
     \<and> r ''lat'' = Some (PFloat la) \<and> r ''lon'' = Some (PFloat lo)
     \<and> r ''loc_method'' = Some (PStr (str_of ''provided_point''))
     \<and> r ''loc_confidence'' = Some (PFloat 1)"
proof -
  from assms(5) have b: "\<bar>la\<bar> \<le> 180" "\<bar>lo\<bar> \<le> 180" by (auto simp: valid_point_def)
  have f: "to_float E vlat = Inr la" "to_float E vlon = Inr lo"
    using to_float_numeric assms(3,4) b by blast+
  have n: "vlat \<noteq> PNone" "vlon \<noteq> PNone"
    using assms(3,4) by (auto simp: numeric_value_def)
  have "provided_point E (init_result rec) =
          Inr (Some (located (init_result rec) la lo ''provided_point'' 1
                       (str_of ''Coordinates provided in source data'')))"
    using assms(1,2,5) f n by (simp add: provided_point_def dict_get_def init_result_def)
  then show ?thesis by (simp add: resolve_location_def located_fields)
qed

text \<open>
  A record with coordinates, a box that has a centroid of its own, and a country that is
  not even a text: tier 1 returns.
\<close>

theorem provided_point_wins_witness:
  "scenario_a ''lat'' = Some (PFloat (681 / 20))
   \<and> scenario_a ''lon'' = Some (PFloat (- (2956 / 25)))
   \<and> bbox_centroid ascii_env (dict_get scenario_a ''bbox'') = Inr (Some (41, - 9))
   \<and> valid_point (681 / 20) (- (2956 / 25))
   \<and> resolve_location ascii_env scenario_a empty_gazetteer =
       Inr (located (init_result scenario_a) (681 / 20) (- (2956 / 25)) ''provided_point'' 1
              (str_of ''Coordinates provided in source data''))"
  using provided_point_wins [of scenario_a "PFloat (681 / 20)" "PFloat (- (2956 / 25))"
      "681 / 20" "- (2956 / 25)" ascii_env empty_gazetteer]
  by (simp add: scenario_a_def numeric_value_def valid_point_def dict_get_def
      bbox_centroid_def float_int_limit_def)

section \<open>The input record is not written\<close>

lemma resolve_location_frame:
  assumes "resolve_location E rec gaz = Inr r" and "k \<notin> result_fields"
  shows "r k = rec k"
  using resolve_location_cases [OF assms(1)] assms(2)
  by (auto simp: located_frame unresolved_frame init_result_frame)

text \<open>
  Claim C10. After a call on the record at reference \<open>rec\<close>, every object that was in
  the store is unchanged, the input record among them; a returned record is a new
  object, and outside the five result fields it maps every key as the input does.
\<close>

theorem input_record_untouched:
  assumes "rec < length h" and "resolve_location_at E h rec gaz = (h', res)"
  shows "(\<forall>i < length h. h' ! i = h ! i)
     \<and> (\<forall>b. res = Inr b \<longrightarrow> b = length h \<and> b \<noteq> rec \<and> b < length h'
           \<and> (\<forall>k. k \<notin> result_fields \<longrightarrow> (h' ! b) k = (h ! rec) k))"
proof (cases "resolve_location E (h ! rec) gaz")
  case (Inl e)
  with assms(2) have "h' = h @ [init_result (h ! rec)]" "res = Inl e"
    by (auto simp: resolve_location_at_def Let_def)
  then show ?thesis by (simp add: nth_append)
next
  case (Inr r)
  with assms(2) have h': "h' = (h @ [init_result (h ! rec)])[length h := r]"
    and res: "res = Inr (length h)"
    by (auto simp: resolve_location_at_def Let_def)
  have "h' ! length h = r" using h' by simp
  moreover have "\<forall>i < length h. h' ! i = h ! i" using h' by (simp add: nth_append)
  moreover have "length h < length h'" using h' by simp
  ultimately show ?thesis
    using res assms(1) resolve_location_frame [OF Inr] by auto
qed

lemma scenario_d_unresolved:
  "resolve_location ascii_env scenario_d empty_gazetteer =
     Inr (unresolved (init_result scenario_d))"
  by (simp add: resolve_location_def provided_point_def dict_get_def init_result_def
      scenario_d_def bbox_tier_def read_text_fields_def get_stripped_def bnd_def
      gazetteer_tiers_def country_lookup_def find_country_def empty_gazetteer_def
      city_tier_def place_tier_def admin1_tier_def country_tier_def)

text \<open>The store with the one record of scenario D, and an empty gazetteer.\<close>

theorem input_record_untouched_witness:
  "resolve_location_at ascii_env [scenario_d] 0 empty_gazetteer =
     ([scenario_d, unresolved (init_result scenario_d)], Inr 1)
   \<and> [scenario_d, unresolved (init_result scenario_d)] ! 0 = scenario_d
   \<and> unresolved (init_result scenario_d) ''id'' = scenario_d ''id''
   \<and> unresolved (init_result scenario_d) ''country'' = scenario_d ''country''"
proof -
  have e: "resolve_location_at ascii_env [scenario_d] 0 empty_gazetteer =
     ([scenario_d, unresolved (init_result scenario_d)], Inr 1)"
    by (simp add: resolve_location_at_def scenario_d_unresolved)
  have l: "(0::nat) < length [scenario_d]" by simp
  have "''id'' \<notin> result_fields" "''country'' \<notin> result_fields"
    by (simp_all add: result_fields_def)
  with input_record_untouched [OF l e] e show ?thesis by simp
qed

section \<open>The normaliser on its inputs\<close>

text \<open>
  Claim C4, as the code has it. On every \<open>str\<close>, the type of the parameter, the
  normaliser returns a key and raises nothing; the key is the one computed by the steps
  of the method; \<open>None\<close> and the empty text give the empty key.
\<close>

theorem normalize_total_on_str:
  "(\<exists>k. normalize E (PStr s) = Inr k)
     \<and> normalize E (PStr s) = Inr (normalize_str E s)
     \<and> normalize E PNone = Inr []
     \<and> normalize E (PStr []) = Inr []"
  by (simp add: normalize_def normalize_str_def)

text \<open>
  Claim C4 as stated, for every input, fails: an argument that is truthy and not a
  \<open>str\<close>, here a list of two byte values, passes the guard and makes
  \<open>unicodedata.normalize\<close> raise \<open>TypeError\<close>.
\<close>

theorem normalize_raises_on_non_str:
  "normalize ascii_env (PList [PInt 255, PInt 254]) = Inl TypeError"
  by (simp add: normalize_def)

section \<open>The centroid on a box with an integer beyond the float range\<close>

text \<open>
  Claim C5 at the input \<open>[10**400, 0, 0, 0]\<close>: four numeric values whose midpoint lies
  far outside the valid longitudes, so the claim asks for the result none. The
  conversion \<open>float(10**400)\<close> raises \<open>OverflowError\<close>, which the clause
  \<open>except (ValueError, TypeError)\<close> does not catch: the call raises.
\<close>

theorem bbox_centroid_overflow:
  "bbox_centroid ascii_env (PList [PInt (10 ^ 400), PInt 0, PInt 0, PInt 0])
     = Inl OverflowError"
  by (simp add: bbox_centroid_def float_int_limit_def caught_def)

end
